theory Spec2Isabelle
  imports Complex_Main "HOL-Library.Char_ord" "HOL-Library.List_Lexorder" "HOL-Library.AList"
begin

section \<open>Python values\<close>

text \<open>
  The program handles parsed JSON throughout: webhook payloads, the message the mail
  provider returns, chunks, metadata records and the metadata file are Python objects
  built from \<open>None\<close>, booleans, numbers, strings, lists and dictionaries. A dictionary
  is an association list in insertion order with distinct keys (the first entry of a key
  is the one a lookup sees). Numbers are rationals, which covers Python's integers and
  every finite float; NaN and the infinities are outside the model.
\<close>

datatype json =
    JNull
  | JBool bool
  | JNum rat
  | JStr string
  | JArr "json list"
  | JObj "(string \<times> json) list"

text \<open>
  The exceptions the code can meet. \<open>ExternalError\<close> stands for whatever a collaborator
  outside the repository's sources raises (the HTML parser, the chunker, the embedding
  store, the HTTP client, the identity provider's client).
\<close>

datatype py_error =
    AttributeError
  | TypeError
  | KeyError
  | JSONDecodeError
  | UnicodeDecodeError
  | ExternalError

text \<open>Truthiness, as \<open>if x:\<close> and \<open>if not x:\<close> test it.\<close>

fun truthy :: "json \<Rightarrow> bool" where
  "truthy JNull = False"
| "truthy (JBool b) = b"
| "truthy (JNum r) = (r \<noteq> 0)"
| "truthy (JStr s) = (s \<noteq> [])"
| "truthy (JArr xs) = (xs \<noteq> [])"
| "truthy (JObj kvs) = (kvs \<noteq> [])"

text \<open>
  \<open>d.get(k, default)\<close>: only a dictionary has the method; on any other value the
  attribute lookup raises \<open>AttributeError\<close>. \<open>d.get(k)\<close> is \<open>dict_get d k JNull\<close>.
\<close>

fun dict_get :: "json \<Rightarrow> string \<Rightarrow> json \<Rightarrow> py_error + json" where
  "dict_get (JObj kvs) k d = Inr (case map_of kvs k of None \<Rightarrow> d | Some v \<Rightarrow> v)"
| "dict_get _ k d = Inl AttributeError"

text \<open>\<open>d[k]\<close> with a string key: \<open>KeyError\<close> on a dictionary without the key,
  \<open>TypeError\<close> on every other value.\<close>

fun dict_item :: "json \<Rightarrow> string \<Rightarrow> py_error + json" where
  "dict_item (JObj kvs) k = (case map_of kvs k of None \<Rightarrow> Inl KeyError | Some v \<Rightarrow> Inr v)"
| "dict_item _ k = Inl TypeError"

text \<open>
  \<open>for x in v\<close>: a list yields its elements, a string its characters (as one-character
  strings), a dictionary its keys; anything else is not iterable.
\<close>

fun py_iter :: "json \<Rightarrow> py_error + json list" where
  "py_iter (JArr xs) = Inr xs"
| "py_iter (JStr s) = Inr (map (\<lambda>c. JStr [c]) s)"
| "py_iter (JObj kvs) = Inr (map (\<lambda>kv. JStr (fst kv)) kvs)"
| "py_iter _ = Inl TypeError"

text \<open>
  \<open>a == b\<close>. Python compares \<open>True\<close> with \<open>1\<close> and \<open>False\<close> with \<open>0\<close> as equal,
  lists element by element, and dictionaries as mappings, whatever the order of their
  keys. Two values are equal exactly when their normal forms coincide: booleans become
  numbers, dictionaries are sorted by key.
\<close>

fun py_norm :: "json \<Rightarrow> json" where
  "py_norm JNull = JNull"
| "py_norm (JBool b) = JNum (if b then 1 else 0)"
| "py_norm (JNum r) = JNum r"
| "py_norm (JStr s) = JStr s"
| "py_norm (JArr xs) = JArr (map py_norm xs)"
| "py_norm (JObj kvs) =
     JObj (sort_key fst (AList.clearjunk (map (\<lambda>kv. (fst kv, py_norm (snd kv))) kvs)))"

definition py_eq :: "json \<Rightarrow> json \<Rightarrow> bool" where
  "py_eq a b = (py_norm a = py_norm b)"

text \<open>
  \<open>s.strip()\<close> removes leading and trailing whitespace. Characters are code points
  below 256; the whitespace among them is U+0009..U+000D, U+001C..U+0020, U+0085 and
  U+00A0.
\<close>

definition py_isspace :: "char \<Rightarrow> bool" where
  "py_isspace c =
     (let n = (of_char c :: nat)
      in (9 \<le> n \<and> n \<le> 13) \<or> (28 \<le> n \<and> n \<le> 32) \<or> n = 133 \<or> n = 160)"

definition py_strip :: "string \<Rightarrow> string" where
  "py_strip s = rev (dropWhile py_isspace (rev (dropWhile py_isspace s)))"

text \<open>\<open>d.update(other)\<close>: a key already present keeps its position and takes the new
  value, a new key goes to the end.\<close>

fun dict_set :: "(string \<times> json) list \<Rightarrow> string \<Rightarrow> json \<Rightarrow> (string \<times> json) list" where
  "dict_set [] k v = [(k, v)]"
| "dict_set ((k', v') # kvs) k v =
     (if k' = k then (k, v) # kvs else (k', v') # dict_set kvs k v)"

fun dict_update :: "json \<Rightarrow> (string \<times> json) list \<Rightarrow> py_error + json" where
  "dict_update (JObj kvs) new = Inr (JObj (fold (\<lambda>kv acc. dict_set acc (fst kv) (snd kv)) new kvs))"
| "dict_update _ new = Inl AttributeError"


section \<open>The webhook endpoint (email_webhook.py)\<close>

text \<open>
  A request as \<open>handle_graph_webhook\<close> reads it: the method, the query string's items
  in the order they were sent, and what \<open>await request.json()\<close> gives (\<open>Inl\<close> when the
  body is not JSON and the call raises).
\<close>

record request =
  http_method :: string
  query_params :: "(string \<times> string) list"
  json_body :: "py_error + json"

text \<open>\<open>request.query_params.get(k)\<close>: the framework keeps the last value of a repeated
  key.\<close>

definition query_get :: "(string \<times> string) list \<Rightarrow> string \<Rightarrow> string option" where
  "query_get items k = map_of (rev items) k"

text \<open>
  The two response classes the handler builds, each with its content and status code.
  \<open>PlainTextResponse(status_code=405)\<close> has no content.
\<close>

datatype response =
    PlainTextResponse "string option" nat
  | JSONResponse json nat

fun status_code :: "response \<Rightarrow> nat" where
  "status_code (PlainTextResponse c s) = s"
| "status_code (JSONResponse c s) = s"

fun media_type :: "response \<Rightarrow> string" where
  "media_type (PlainTextResponse c s) = ''text/plain''"
| "media_type (JSONResponse c s) = ''application/json''"

text \<open>The body of a plain-text response: its content, empty when there is none.\<close>

fun plain_body :: "response \<Rightarrow> string option" where
  "plain_body (PlainTextResponse None s) = Some []"
| "plain_body (PlainTextResponse (Some c) s) = Some c"
| "plain_body (JSONResponse c s) = None"

text \<open>
  The loop over the notifications: each one's \<open>resource\<close> is handed to
  \<open>background_tasks.add_task(trigger_email_processing, resource)\<close>. A notification that
  is not a dictionary raises in the middle of the loop, after the tasks of the earlier
  ones were added.
\<close>

fun add_tasks :: "json list \<Rightarrow> json list \<Rightarrow> py_error option \<times> json list" where
  "add_tasks [] tasks = (None, tasks)"
| "add_tasks (notification # rest) tasks =
     (case dict_get notification ''resource'' (JStr []) of
        Inl e \<Rightarrow> (Some e, tasks)
      | Inr resource \<Rightarrow> add_tasks rest (tasks @ [resource]))"

definition invalid_json :: response where
  "invalid_json = JSONResponse (JObj [(''error'', JStr ''Invalid JSON'')]) 400"

definition notification_received :: response where
  "notification_received = JSONResponse (JObj [(''status'', JStr ''Notification received'')]) 202"

text \<open>
  \<open>handle_graph_webhook\<close> returns the response and the resources of the background
  tasks it scheduled, in order. The \<open>except Exception\<close> of the POST branch answers 400
  for every exception raised in the \<open>try\<close> block.
\<close>

definition handle_graph_webhook :: "request \<Rightarrow> response \<times> json list" where
  "handle_graph_webhook request =
     (let validation_token = query_get (query_params request) ''validationToken''
      in if validation_token \<noteq> None \<and> validation_token \<noteq> Some []
         then (PlainTextResponse validation_token 200, [])
         else if http_method request = ''POST''
         then (case json_body request of
                 Inl e \<Rightarrow> (invalid_json, [])
               | Inr body \<Rightarrow>
                   (case dict_get body ''value'' (JArr []) of
                      Inl e \<Rightarrow> (invalid_json, [])
                    | Inr notifications \<Rightarrow>
                        (case py_iter notifications of
                           Inl e \<Rightarrow> (invalid_json, [])
                         | Inr ns \<Rightarrow>
                             (case add_tasks ns [] of
                                (Some e, tasks) \<Rightarrow> (invalid_json, tasks)
                              | (None, tasks) \<Rightarrow> (notification_received, tasks)))))
         else (PlainTextResponse None 405, []))"


section \<open>The ingestion pipeline (email_webhook.py)\<close>

text \<open>
  What \<open>process_and_store_email\<close> calls outside the repository's sources is a
  parameter: the HTML parser's \<open>get_text\<close>, the string an f-string makes of the message
  id, the chunker (given the temporary file's path and contents) and the vector store's
  \<open>build_or_append_index\<close>, which may have changed the index file also when it raises.
  Each may raise. File-system calls themselves are taken to succeed.
\<close>

record 'idx collaborators =
  html_get_text :: "json \<Rightarrow> py_error + string"
  format_uid :: "json \<Rightarrow> string"
  chunker :: "string \<Rightarrow> string \<Rightarrow> py_error + json list"
  build_or_append_index :: "json list \<Rightarrow> string \<Rightarrow> 'idx \<Rightarrow> py_error option \<times> 'idx"

text \<open>The two readings of \<open>datetime.utcnow()\<close>, already formatted: the
  \<open>strftime\<close> timestamp and the ISO upload date.\<close>

record clock =
  timestamp :: string
  upload_date :: string

text \<open>
  The storage directory: whether it exists, the text files in it by path, the vector
  index file, and the metadata file. The metadata file is absent, or it holds bytes that
  are not text in the encoding it is opened with (\<open>Undecodable\<close>), text that is not
  JSON (\<open>NotJson\<close>), or a JSON document. What the program itself writes with
  \<open>json.dump\<close> is always a JSON document.
\<close>

datatype file_contents = Undecodable | NotJson | Json json

record 'idx storage =
  base_dir :: bool
  text_files :: "string \<Rightarrow> string option"
  index_file :: 'idx
  metadata_file :: "file_contents option"

text \<open>The fields read off the message (lines 94 to 103), in the order the code reads
  them; the first failing lookup raises.\<close>

record fields =
  uid :: json
  subject :: json
  sender :: json
  sender_name :: json
  sent_time :: json
  cc_list :: "json list"
  has_attachments :: json
  plain_text :: string

definition bind_result :: "py_error + 'a \<Rightarrow> ('a \<Rightarrow> py_error + 'b) \<Rightarrow> py_error + 'b" where
  "bind_result m f = (case m of Inl e \<Rightarrow> Inl e | Inr v \<Rightarrow> f v)"

text \<open>\<open>d.get(a, {}).get(b, {}).get(c, default)\<close>\<close>

definition nested_get :: "json \<Rightarrow> string \<Rightarrow> string \<Rightarrow> string \<Rightarrow> json \<Rightarrow> py_error + json" where
  "nested_get d a b c dflt =
     bind_result (dict_get d a (JObj [])) (\<lambda>x.
     bind_result (dict_get x b (JObj [])) (\<lambda>y.
     dict_get y c dflt))"

text \<open>\<open>[r.get("emailAddress", {}).get("address", "") for r in recipients]\<close>\<close>

fun cc_addresses :: "json list \<Rightarrow> py_error + json list" where
  "cc_addresses [] = Inr []"
| "cc_addresses (r # rs) =
     (case dict_get r ''emailAddress'' (JObj []) of
        Inl e \<Rightarrow> Inl e
      | Inr ea \<Rightarrow>
          (case dict_get ea ''address'' (JStr []) of
             Inl e \<Rightarrow> Inl e
           | Inr a \<Rightarrow>
               (case cc_addresses rs of
                  Inl e \<Rightarrow> Inl e
                | Inr as \<Rightarrow> Inr (a # as))))"

definition read_fields :: "'idx collaborators \<Rightarrow> json \<Rightarrow> py_error + fields" where
  "read_fields env email_data =
     bind_result (dict_get email_data ''id'' JNull) (\<lambda>u.
     bind_result (dict_get email_data ''subject'' (JStr ''No Subject'')) (\<lambda>subj.
     bind_result (nested_get email_data ''from'' ''emailAddress'' ''address'' (JStr ''unknown'')) (\<lambda>snd_addr.
     bind_result (nested_get email_data ''from'' ''emailAddress'' ''name'' (JStr ''Unknown'')) (\<lambda>snd_name.
     bind_result (dict_get email_data ''sentDateTime'' (JStr ''unknown'')) (\<lambda>sent.
     bind_result (dict_get email_data ''ccRecipients'' (JArr [])) (\<lambda>recipients.
     bind_result (py_iter recipients) (\<lambda>rs.
     bind_result (cc_addresses rs) (\<lambda>cc.
     bind_result (dict_get email_data ''hasAttachments'' (JBool False)) (\<lambda>att.
     bind_result (dict_get email_data ''body'' (JObj [])) (\<lambda>b.
     bind_result (dict_get b ''content'' (JStr [])) (\<lambda>html_body.
     bind_result (html_get_text env html_body) (\<lambda>plain.
     Inr \<lparr>uid = u, subject = subj, sender = snd_addr, sender_name = snd_name,
          sent_time = sent, cc_list = cc, has_attachments = att,
          plain_text = plain\<rparr>))))))))))))"

definition base_path :: string where
  "base_path = ''vector_stores/email_data''"

text \<open>\<open>os.path.join(base_path, name)\<close> for a name that does not start with a slash.\<close>

definition path_join :: "string \<Rightarrow> string \<Rightarrow> string" where
  "path_join dir name = dir @ ''/'' @ name"

definition temp_file_path :: "'idx collaborators \<Rightarrow> json \<Rightarrow> string \<Rightarrow> string" where
  "temp_file_path env u ts = path_join base_path (''email_'' @ format_uid env u @ ''_'' @ ts @ ''.txt'')"

definition index_path :: string where
  "index_path = path_join base_path ''index_email.faiss''"

text \<open>The message-level fields every chunk's metadata is updated with.\<close>

definition chunk_fields :: "fields \<Rightarrow> string \<Rightarrow> (string \<times> json) list" where
  "chunk_fields f ts =
     [(''email_id'', uid f), (''subject'', subject f), (''sender'', sender f),
      (''sender_name'', sender_name f), (''timestamp'', JStr ts),
      (''cc'', JArr (cc_list f)), (''hasAttachments'', has_attachments f)]"

text \<open>\<open>chunk["metadata"].update({...})\<close>\<close>

fun enrich_chunk :: "(string \<times> json) list \<Rightarrow> json \<Rightarrow> py_error + json" where
  "enrich_chunk new (JObj kvs) =
     (case map_of kvs ''metadata'' of
        None \<Rightarrow> Inl KeyError
      | Some m \<Rightarrow>
          (case dict_update m new of
             Inl e \<Rightarrow> Inl e
           | Inr m' \<Rightarrow> Inr (JObj (dict_set kvs ''metadata'' m'))))"
| "enrich_chunk new _ = Inl TypeError"

fun enrich_chunks :: "(string \<times> json) list \<Rightarrow> json list \<Rightarrow> py_error + json list" where
  "enrich_chunks new [] = Inr []"
| "enrich_chunks new (c # cs) =
     (case enrich_chunk new c of
        Inl e \<Rightarrow> Inl e
      | Inr c' \<Rightarrow>
          (case enrich_chunks new cs of
             Inl e \<Rightarrow> Inl e
           | Inr cs' \<Rightarrow> Inr (c' # cs')))"

definition metadata_entry :: "fields \<Rightarrow> clock \<Rightarrow> nat \<Rightarrow> json" where
  "metadata_entry f clk n =
     JObj (chunk_fields f (timestamp clk) @
           [(''chunk_count'', JNum (of_nat n)), (''index_path'', JStr index_path),
            (''uploadDate'', JStr (upload_date clk))])"

text \<open>
  The metadata step, the block under the file lock (lines 159 to 174). First the read:
  no file, or a file \<open>json.load\<close> rejects with \<open>JSONDecodeError\<close>, is the empty list;
  any other JSON document is taken as it is, list or not. The \<open>except\<close> clause names
  \<open>json.JSONDecodeError\<close> only: on a file whose bytes are not text the read inside
  \<open>json.load\<close> raises \<open>UnicodeDecodeError\<close>, which is not caught.
\<close>

fun load_metadata :: "file_contents option \<Rightarrow> py_error + json" where
  "load_metadata None = Inr (JArr [])"
| "load_metadata (Some Undecodable) = Inl UnicodeDecodeError"
| "load_metadata (Some NotJson) = Inr (JArr [])"
| "load_metadata (Some (Json v)) = Inr v"

text \<open>\<open>any(m.get("email_id") == uid for m in metadata_list)\<close> stops at the first
  match; an element that is not a dictionary raises when it is reached.\<close>

fun any_email_id :: "json list \<Rightarrow> json \<Rightarrow> py_error + bool" where
  "any_email_id [] u = Inr False"
| "any_email_id (m # ms) u =
     (case dict_get m ''email_id'' JNull of
        Inl e \<Rightarrow> Inl e
      | Inr v \<Rightarrow> if py_eq v u then Inr True else any_email_id ms u)"

text \<open>\<open>metadata_list.append(entry)\<close>: only a list has the method.\<close>

fun list_append :: "json \<Rightarrow> json \<Rightarrow> py_error + json" where
  "list_append (JArr xs) x = Inr (JArr (xs @ [x]))"
| "list_append _ x = Inl AttributeError"

definition append_metadata :: "json \<Rightarrow> json \<Rightarrow> file_contents option \<Rightarrow> py_error + file_contents option" where
  "append_metadata u entry file =
     (case load_metadata file of
        Inl e \<Rightarrow> Inl e
      | Inr metadata_list \<Rightarrow>
          (case py_iter metadata_list of
             Inl e \<Rightarrow> Inl e
           | Inr ms \<Rightarrow>
               (case any_email_id ms u of
                  Inl e \<Rightarrow> Inl e
                | Inr True \<Rightarrow> Inr file
                | Inr False \<Rightarrow>
                    (case list_append metadata_list entry of
                       Inl e \<Rightarrow> Inl e
                     | Inr new_list \<Rightarrow> Inr (Some (Json new_list))))))"

text \<open>
  How a call of \<open>process_and_store_email\<close> ends: at the early \<open>return\<close> of the
  empty-body check, at the end of the function, or with an exception. An exception
  leaves the storage as the statements before it made it.
\<close>

datatype outcome = Skipped | Stored | Raised py_error

definition process_and_store_email ::
  "'idx collaborators \<Rightarrow> clock \<Rightarrow> json \<Rightarrow> 'idx storage \<Rightarrow> outcome \<times> 'idx storage" where
  "process_and_store_email env clk email_data fs =
     (case read_fields env email_data of
        Inl e \<Rightarrow> (Raised e, fs)
      | Inr f \<Rightarrow>
          if py_strip (plain_text f) = [] then (Skipped, fs)
          else
            (let temp = temp_file_path env (uid f) (timestamp clk);
                 fs1 = fs\<lparr>base_dir := True,
                           text_files := (text_files fs)(temp \<mapsto> plain_text f)\<rparr>
             in case chunker env temp (plain_text f) of
                  Inl e \<Rightarrow> (Raised e, fs1)
                | Inr chunks \<Rightarrow>
                    (case enrich_chunks (chunk_fields f (timestamp clk)) chunks of
                       Inl e \<Rightarrow> (Raised e, fs1)
                     | Inr chunks' \<Rightarrow>
                         (case build_or_append_index env chunks' index_path (index_file fs1) of
                            (Some e, idx) \<Rightarrow> (Raised e, fs1\<lparr>index_file := idx\<rparr>)
                          | (None, idx) \<Rightarrow>
                              (let fs2 = fs1\<lparr>index_file := idx\<rparr>
                               in case append_metadata (uid f)
                                         (metadata_entry f clk (length chunks'))
                                         (metadata_file fs2) of
                                    Inl e \<Rightarrow> (Raised e, fs2)
                                  | Inr file \<Rightarrow>
                                      (Stored,
                                       fs2\<lparr>metadata_file := file,
                                           text_files := (text_files fs2)(temp := None)\<rparr>))))))"

text \<open>A sequence of ingestions, one after the other, each with its own clock readings.\<close>

fun ingest_all ::
  "'idx collaborators \<Rightarrow> (clock \<times> json) list \<Rightarrow> 'idx storage \<Rightarrow> 'idx storage" where
  "ingest_all env [] fs = fs"
| "ingest_all env (job # rest) fs =
     ingest_all env rest (snd (process_and_store_email env (fst job) (snd job) fs))"

text \<open>The records of the metadata file as the step reads them, and how many of them
  carry a given message id.\<close>

fun records_of :: "file_contents option \<Rightarrow> json list" where
  "records_of (Some (Json (JArr xs))) = xs"
| "records_of _ = []"

definition has_email_id :: "json \<Rightarrow> json \<Rightarrow> bool" where
  "has_email_id u m = (case dict_get m ''email_id'' JNull of Inl e \<Rightarrow> False | Inr v \<Rightarrow> py_eq v u)"

definition count_email_id :: "json \<Rightarrow> file_contents option \<Rightarrow> nat" where
  "count_email_id u file = length (filter (has_email_id u) (records_of file))"


section \<open>The subscription and its renewal scheduler (subscription.py)\<close>

text \<open>
  The module's configuration: the callback URL and the target resource come from the
  environment (a missing variable is \<open>None\<close>), and \<open>datetime.isoformat\<close> is a
  parameter. Time is counted in microseconds, the resolution of \<open>datetime\<close>.
\<close>

record config =
  callback_url :: json
  resource :: string
  isoformat :: "int \<Rightarrow> string"

definition hours :: "int \<Rightarrow> int" where
  "hours h = h * 3600 * 1000000"

text \<open>A response of the HTTP client: the status code and what \<open>response.json()\<close>
  gives.\<close>

record http_response =
  status :: nat
  response_json :: "py_error + json"

text \<open>The network calls the module makes, logged in the order they are made: the token
  acquisition and the four requests on the subscriptions collection, with what each
  carries.\<close>

datatype net_call =
    AcquireToken
  | ListSubscriptions json
  | DeleteSubscription json json
  | PostSubscription json json
  | PatchSubscription json json json

text \<open>
  The module's two globals, the jobs of the scheduler (job id to interval in seconds)
  and the log of network calls.
\<close>

record scheduler_state =
  current_subscription_id :: json
  use_fast_scheduler :: bool
  jobs :: "string \<Rightarrow> nat option"
  calls :: "net_call list"

text \<open>
  What the outside world answers during one tick: the clock readings, the results of
  the token acquisitions, and the provider's responses (\<open>Inl\<close> when the call raises).
  A tick acquires a token at most twice, once on the recovery path and once inside
  \<open>renew_subscription\<close>.
\<close>

record answers =
  recovery_token :: "py_error + json"
  listing :: "py_error + http_response"
  deletion :: "json \<Rightarrow> py_error + http_response"
  create_now :: int
  creation :: "py_error + http_response"
  renew_token :: "py_error + json"
  renew_now :: int
  renewal :: "py_error + http_response"

definition log_call :: "net_call \<Rightarrow> scheduler_state \<Rightarrow> scheduler_state" where
  "log_call c s = s\<lparr>calls := calls s @ [c]\<rparr>"

definition get_access_token ::
  "py_error + json \<Rightarrow> scheduler_state \<Rightarrow> (py_error + json) \<times> scheduler_state" where
  "get_access_token answer s = (answer, log_call AcquireToken s)"

text \<open>The loop of \<open>delete_all_subscriptions\<close>: one DELETE per listed subscription; the
  status of a deletion is only printed.\<close>

fun delete_each ::
  "(json \<Rightarrow> py_error + http_response) \<Rightarrow> json \<Rightarrow> json list \<Rightarrow> scheduler_state \<Rightarrow>
   (py_error + unit) \<times> scheduler_state" where
  "delete_each del token [] s = (Inr (), s)"
| "delete_each del token (sub # subs) s =
     (case dict_get sub ''id'' JNull of
        Inl e \<Rightarrow> (Inl e, s)
      | Inr sub_id \<Rightarrow>
          (let s1 = log_call (DeleteSubscription token sub_id) s
           in case del sub_id of
                Inl e \<Rightarrow> (Inl e, s1)
              | Inr del_resp \<Rightarrow> delete_each del token subs s1))"

definition delete_all_subscriptions ::
  "answers \<Rightarrow> json \<Rightarrow> scheduler_state \<Rightarrow> (py_error + unit) \<times> scheduler_state" where
  "delete_all_subscriptions a token s =
     (let s1 = log_call (ListSubscriptions token) s
      in case listing a of
           Inl e \<Rightarrow> (Inl e, s1)
         | Inr r \<Rightarrow>
             if status r \<noteq> 200 then (Inr (), s1)
             else
               (case response_json r of
                  Inl e \<Rightarrow> (Inl e, s1)
                | Inr body \<Rightarrow>
                    (case dict_get body ''value'' (JArr []) of
                       Inl e \<Rightarrow> (Inl e, s1)
                     | Inr v \<Rightarrow>
                         (case py_iter v of
                            Inl e \<Rightarrow> (Inl e, s1)
                          | Inr subs \<Rightarrow> delete_each (deletion a) token subs s1))))"

text \<open>The expiration both \<open>create_subscription\<close> and \<open>renew_subscription\<close> ask for:
  \<open>(datetime.utcnow() + timedelta(hours=40)).isoformat() + "Z"\<close>.\<close>

definition expiration :: "config \<Rightarrow> int \<Rightarrow> string" where
  "expiration cfg now = isoformat cfg (now + hours 40) @ ''Z''"

definition create_body :: "config \<Rightarrow> int \<Rightarrow> json" where
  "create_body cfg now =
     JObj [(''changeType'', JStr ''created''),
           (''notificationUrl'', callback_url cfg),
           (''resource'', JStr (resource cfg)),
           (''expirationDateTime'', JStr (expiration cfg now)),
           (''clientState'', JStr ''aSecretValueToVerifyTheOrigin'')]"

definition create_subscription ::
  "config \<Rightarrow> answers \<Rightarrow> json \<Rightarrow> scheduler_state \<Rightarrow> (py_error + bool) \<times> scheduler_state" where
  "create_subscription cfg a token s =
     (let s1 = log_call (PostSubscription token (create_body cfg (create_now a))) s
      in case creation a of
           Inl e \<Rightarrow> (Inl e, s1)
         | Inr r \<Rightarrow>
             if status r = 201
             then (case response_json r of
                     Inl e \<Rightarrow> (Inl e, s1)
                   | Inr body \<Rightarrow>
                       (case dict_get body ''id'' JNull of
                          Inl e \<Rightarrow> (Inl e, s1)
                        | Inr new_id \<Rightarrow> (Inr True, s1\<lparr>current_subscription_id := new_id\<rparr>)))
             else (Inr False, s1))"

definition patch_body :: "config \<Rightarrow> int \<Rightarrow> json" where
  "patch_body cfg now = JObj [(''expirationDateTime'', JStr (expiration cfg now))]"

definition renew_subscription ::
  "config \<Rightarrow> answers \<Rightarrow> scheduler_state \<Rightarrow> (py_error + bool) \<times> scheduler_state" where
  "renew_subscription cfg a s =
     (if \<not> truthy (current_subscription_id s) then (Inr False, s)
      else
        (case get_access_token (renew_token a) s of
           (Inl e, s1) \<Rightarrow> (Inl e, s1)
         | (Inr token, s1) \<Rightarrow>
             if \<not> truthy token then (Inr False, s1)
             else
               (let s2 = log_call (PatchSubscription token (current_subscription_id s1)
                                     (patch_body cfg (renew_now a))) s1
                in case renewal a of
                     Inl e \<Rightarrow> (Inl e, s2)
                   | Inr r \<Rightarrow> (Inr (status r = 200), s2))))"

text \<open>
  The scheduler's one job and its two cadences: every 15 seconds, and every 40 hours.
  \<open>remove_job\<close> raises when the scheduler has no job of that id.
\<close>

datatype job_error = JobLookupError | Failed py_error

definition job_id :: string where
  "job_id = ''scheduled_check''"

definition fast_interval :: nat where
  "fast_interval = 15"

definition slow_interval :: nat where
  "slow_interval = 40 * 3600"

definition switch_to_slow :: "scheduler_state \<Rightarrow> job_error option \<times> scheduler_state" where
  "switch_to_slow s =
     (let s1 = s\<lparr>use_fast_scheduler := False\<rparr>
      in if jobs s1 job_id = None then (Some JobLookupError, s1)
         else (None, s1\<lparr>jobs := ((jobs s1)(job_id := None))(job_id \<mapsto> slow_interval)\<rparr>))"

text \<open>One tick: \<open>run_scheduled_check\<close>. It returns nothing; an exception ends the tick
  and is left to the scheduler, which keeps the job.\<close>

definition run_scheduled_check ::
  "config \<Rightarrow> answers \<Rightarrow> scheduler_state \<Rightarrow> job_error option \<times> scheduler_state" where
  "run_scheduled_check cfg a s =
     (if truthy (current_subscription_id s)
      then (case renew_subscription cfg a s of
              (Inl e, s1) \<Rightarrow> (Some (Failed e), s1)
            | (Inr success, s1) \<Rightarrow>
                if success \<and> use_fast_scheduler s1 then switch_to_slow s1 else (None, s1))
      else
        (case get_access_token (recovery_token a) s of
           (Inl e, s1) \<Rightarrow> (Some (Failed e), s1)
         | (Inr token, s1) \<Rightarrow>
             if \<not> truthy token then (None, s1)
             else
               (case delete_all_subscriptions a token s1 of
                  (Inl e, s2) \<Rightarrow> (Some (Failed e), s2)
                | (Inr u, s2) \<Rightarrow>
                    (case create_subscription cfg a token s2 of
                       (Inl e, s3) \<Rightarrow> (Some (Failed e), s3)
                     | (Inr created, s3) \<Rightarrow>
                         if created
                         then (case renew_subscription cfg a s3 of
                                 (Inl e, s4) \<Rightarrow> (Some (Failed e), s4)
                               | (Inr renewed, s4) \<Rightarrow> (None, s4))
                         else (None, s3)))))"

text \<open>\<open>start_scheduler\<close> on the freshly imported module: no subscription id, the fast
  flag set, and the job installed at the fast cadence.\<close>

definition start_scheduler :: scheduler_state where
  "start_scheduler =
     \<lparr>current_subscription_id = JNull, use_fast_scheduler = True,
      jobs = Map.empty(job_id \<mapsto> fast_interval), calls = []\<rparr>"

text \<open>The ticks that follow, each with the world's answers at that time.\<close>

fun run_ticks :: "config \<Rightarrow> answers list \<Rightarrow> scheduler_state \<Rightarrow> scheduler_state" where
  "run_ticks cfg [] s = s"
| "run_ticks cfg (a # rest) s = run_ticks cfg rest (snd (run_scheduled_check cfg a s))"


section \<open>Example inputs\<close>

text \<open>Concrete requests, messages, collaborators and provider answers, on which the
  theorems below are instantiated.\<close>

definition get_empty_token :: request where
  "get_empty_token =
     \<lparr>http_method = ''GET'', query_params = [(''validationToken'', [])],
      json_body = Inl JSONDecodeError\<rparr>"

definition get_with_token :: request where
  "get_with_token =
     \<lparr>http_method = ''GET'', query_params = [(''validationToken'', ''ABC123'')],
      json_body = Inl JSONDecodeError\<rparr>"

definition post_with_token :: request where
  "post_with_token =
     \<lparr>http_method = ''POST'', query_params = [(''validationToken'', ''ABC123'')],
      json_body = Inl JSONDecodeError\<rparr>"

definition post_not_json :: request where
  "post_not_json =
     \<lparr>http_method = ''POST'', query_params = [], json_body = Inl JSONDecodeError\<rparr>"

definition demo_env :: "json list collaborators" where
  "demo_env =
     \<lparr>html_get_text = (\<lambda>j. case j of JStr s \<Rightarrow> Inr s | _ \<Rightarrow> Inl TypeError),
      format_uid = (\<lambda>j. case j of JStr s \<Rightarrow> s | _ \<Rightarrow> ''None''),
      chunker = (\<lambda>path content. Inr [JObj [(''text'', JStr content), (''metadata'', JObj [])]]),
      build_or_append_index = (\<lambda>chunks path idx. (None, idx @ chunks))\<rparr>"

definition demo_clock :: clock where
  "demo_clock = \<lparr>timestamp = ''20240101_000000'', upload_date = ''2024-01-01T00:00:00''\<rparr>"

definition message_a :: json where
  "message_a = JObj [(''id'', JStr ''A1''), (''body'', JObj [(''content'', JStr ''hello'')])]"

definition message_b :: json where
  "message_b = JObj [(''id'', JStr ''B2''), (''body'', JObj [(''content'', JStr ''world'')])]"

definition blank_message :: json where
  "blank_message = JObj [(''id'', JStr ''C3''), (''body'', JObj [(''content'', JStr '' '')])]"

definition demo_fields :: "string \<Rightarrow> string \<Rightarrow> fields" where
  "demo_fields i body =
     \<lparr>uid = JStr i, subject = JStr ''No Subject'', sender = JStr ''unknown'',
      sender_name = JStr ''Unknown'', sent_time = JStr ''unknown'', cc_list = [],
      has_attachments = JBool False, plain_text = body\<rparr>"

definition empty_storage :: "json list storage" where
  "empty_storage = \<lparr>base_dir = False, text_files = Map.empty, index_file = [], metadata_file = None\<rparr>"



definition demo_config :: config where
  "demo_config =
     \<lparr>callback_url = JStr ''https://example.org/email/graph-webhook'',
      resource = ''users/u1/mailFolders/messages'',
      isoformat = (\<lambda>t. ''1970-01-02T16:00:00'')\<rparr>"

definition ok_answers :: answers where
  "ok_answers =
     \<lparr>recovery_token = Inr (JStr ''tok''),
      listing = Inr \<lparr>status = 200, response_json = Inr (JObj [(''value'', JArr [])])\<rparr>,
      deletion = (\<lambda>i. Inr \<lparr>status = 204, response_json = Inl JSONDecodeError\<rparr>),
      create_now = 0,
      creation = Inr \<lparr>status = 201, response_json = Inr (JObj [(''id'', JStr ''sub-1'')])\<rparr>,
      renew_token = Inr (JStr ''tok''),
      renew_now = 0,
      renewal = Inr \<lparr>status = 200, response_json = Inr (JObj [(''id'', JStr ''sub-1'')])\<rparr>\<rparr>"

definition rejected_answers :: answers where
  "rejected_answers =
     ok_answers\<lparr>creation := Inr \<lparr>status = 400, response_json = Inr (JObj [])\<rparr>\<rparr>"

definition after_recovery :: scheduler_state where
  "after_recovery = snd (run_scheduled_check demo_config ok_answers start_scheduler)"

definition after_renewal :: scheduler_state where
  "after_renewal = snd (run_scheduled_check demo_config ok_answers after_recovery)"

section \<open>Properties of the webhook endpoint\<close>

lemma token_echo:
  assumes "query_get (query_params r) ''validationToken'' = Some tok" and "tok \<noteq> []"
  shows "handle_graph_webhook r = (PlainTextResponse (Some tok) 200, [])"
  using assms by (simp add: handle_graph_webhook_def)

text \<open>
  C5, as the claim states it, fails: a GET whose \<open>validationToken\<close> parameter is
  present but empty is not echoed with status 200. The token is falsy, the guard
  \<open>if validation_token:\<close> is not taken, the method is not POST, and the handler answers
  405.
\<close>

theorem validation_get_empty_token_counterexample:
  "http_method get_empty_token = ''GET'' \<and>
   query_get (query_params get_empty_token) ''validationToken'' = Some [] \<and>
   handle_graph_webhook get_empty_token = (PlainTextResponse None 405, []) \<and>
   status_code (fst (handle_graph_webhook get_empty_token)) \<noteq> 200"
  by (simp add: get_empty_token_def handle_graph_webhook_def query_get_def)

text \<open>
  C5, amended: for every GET request whose \<open>validationToken\<close> query parameter is
  non-empty, the response body is exactly the token, the status is 200, the content type
  is text/plain, and nothing is scheduled.
\<close>

theorem validation_get_echo:
  assumes "http_method r = ''GET''"
    and "query_get (query_params r) ''validationToken'' = Some tok"
    and "tok \<noteq> []"
  shows "plain_body (fst (handle_graph_webhook r)) = Some tok \<and>
         status_code (fst (handle_graph_webhook r)) = 200 \<and>
         media_type (fst (handle_graph_webhook r)) = ''text/plain'' \<and>
         snd (handle_graph_webhook r) = []"
  using token_echo [OF assms(2,3)] by simp

theorem validation_get_echo_witness:
  "http_method get_with_token = ''GET'' \<and>
   query_get (query_params get_with_token) ''validationToken'' = Some ''ABC123'' \<and>
   plain_body (fst (handle_graph_webhook get_with_token)) = Some ''ABC123'' \<and>
   status_code (fst (handle_graph_webhook get_with_token)) = 200 \<and>
   media_type (fst (handle_graph_webhook get_with_token)) = ''text/plain'' \<and>
   snd (handle_graph_webhook get_with_token) = []"
proof -
  have m: "http_method get_with_token = ''GET''"
    by (simp add: get_with_token_def)
  have q: "query_get (query_params get_with_token) ''validationToken'' = Some ''ABC123''"
    by (simp add: get_with_token_def query_get_def)
  have n: "''ABC123'' \<noteq> []" by simp
  show ?thesis using m q validation_get_echo [OF m q n] by simp
qed

text \<open>
  C6, as the claim states it, fails: a POST whose body is not JSON but whose query string
  carries a non-empty \<open>validationToken\<close> is answered by the echo with status 200, since
  the token is tested before the method.
\<close>

theorem malformed_post_with_token_counterexample:
  "http_method post_with_token = ''POST'' \<and>
   json_body post_with_token = Inl JSONDecodeError \<and>
   status_code (fst (handle_graph_webhook post_with_token)) = 200 \<and>
   status_code (fst (handle_graph_webhook post_with_token)) \<noteq> 400"
  by (simp add: post_with_token_def handle_graph_webhook_def query_get_def)

text \<open>
  C6, amended: a POST whose body is not parseable as JSON never schedules a background
  task, and when the query string has no non-empty \<open>validationToken\<close> the handler
  answers 400 with the invalid-JSON error.
\<close>

theorem malformed_post_rejected:
  assumes "http_method r = ''POST''" and "json_body r = Inl e"
  shows "snd (handle_graph_webhook r) = [] \<and>
         (query_get (query_params r) ''validationToken'' = None \<or>
          query_get (query_params r) ''validationToken'' = Some []
          \<longrightarrow> handle_graph_webhook r = (invalid_json, []) \<and>
              status_code (fst (handle_graph_webhook r)) = 400)"
  using assms by (auto simp add: handle_graph_webhook_def invalid_json_def Let_def)

theorem malformed_post_rejected_witness:
  "http_method post_not_json = ''POST'' \<and>
   json_body post_not_json = Inl JSONDecodeError \<and>
   query_get (query_params post_not_json) ''validationToken'' = None \<and>
   snd (handle_graph_webhook post_not_json) = [] \<and>
   handle_graph_webhook post_not_json = (invalid_json, []) \<and>
   status_code (fst (handle_graph_webhook post_not_json)) = 400"
proof -
  have m: "http_method post_not_json = ''POST''"
    by (simp add: post_not_json_def)
  have b: "json_body post_not_json = Inl JSONDecodeError"
    by (simp add: post_not_json_def)
  have q: "query_get (query_params post_not_json) ''validationToken'' = None"
    by (simp add: post_not_json_def query_get_def)
  show ?thesis using m b q malformed_post_rejected [OF m b] by (simp add: invalid_json_def)
qed

text \<open>
  C10: a request whose query string has a non-empty \<open>validationToken\<close> is answered
  with the echoed token and status 200 and schedules nothing, whatever its method and
  whatever its body: replacing the method and the body of the request (in particular by
  POST and any JSON or non-JSON body) gives the same answer, so the body is never looked
  at.
\<close>

theorem validation_echo_any_method:
  assumes "query_get (query_params r) ''validationToken'' = Some tok" and "tok \<noteq> []"
  shows "handle_graph_webhook r = (PlainTextResponse (Some tok) 200, []) \<and>
         handle_graph_webhook (r\<lparr>http_method := m, json_body := b\<rparr>) =
           (PlainTextResponse (Some tok) 200, [])"
proof -
  have "query_get (query_params (r\<lparr>http_method := m, json_body := b\<rparr>)) ''validationToken''
          = Some tok"
    using assms(1) by simp
  then show ?thesis
    using token_echo [OF assms] token_echo [OF _ assms(2)] by blast
qed

theorem validation_echo_any_method_witness:
  "query_get (query_params post_with_token) ''validationToken'' = Some ''ABC123'' \<and>
   http_method post_with_token = ''POST'' \<and>
   handle_graph_webhook post_with_token = (PlainTextResponse (Some ''ABC123'') 200, []) \<and>
   handle_graph_webhook (post_with_token\<lparr>http_method := ''POST'',
       json_body := Inr (JObj [(''value'', JArr [JObj [(''resource'', JStr ''r1'')]])])\<rparr>) =
     (PlainTextResponse (Some ''ABC123'') 200, [])"
proof -
  have q: "query_get (query_params post_with_token) ''validationToken'' = Some ''ABC123''"
    by (simp add: post_with_token_def query_get_def)
  have n: "''ABC123'' \<noteq> []" by simp
  have m: "http_method post_with_token = ''POST''"
    by (simp add: post_with_token_def)
  show ?thesis using q m validation_echo_any_method [OF q n] by simp
qed

section \<open>Properties of the ingestion pipeline\<close>

subsection \<open>Python equality and stripping\<close>

lemma py_eq_refl: "py_eq a a"
  by (simp add: py_eq_def)

lemma py_eq_sym: "py_eq a b \<Longrightarrow> py_eq b a"
  by (simp add: py_eq_def)

lemma py_eq_trans: "py_eq a b \<Longrightarrow> py_eq b c \<Longrightarrow> py_eq a c"
  by (simp add: py_eq_def)

lemma py_strip_empty_iff: "py_strip s = [] \<longleftrightarrow> list_all py_isspace s"
proof
  assume "py_strip s = []"
  then have a: "\<forall>x\<in>set (dropWhile py_isspace s). py_isspace x"
    by (simp add: py_strip_def)
  have "dropWhile py_isspace s = []"
  proof (rule ccontr)
    assume n: "dropWhile py_isspace s \<noteq> []"
    then have "\<not> py_isspace (hd (dropWhile py_isspace s))"
      by (rule hd_dropWhile)
    moreover have "hd (dropWhile py_isspace s) \<in> set (dropWhile py_isspace s)"
      using n by (rule hd_in_set)
    ultimately show False using a by blast
  qed
  then show "list_all py_isspace s"
    by (simp add: list_all_iff)
next
  assume "list_all py_isspace s"
  then have "dropWhile py_isspace s = []"
    by (simp add: list_all_iff)
  then show "py_strip s = []"
    unfolding py_strip_def by (simp del: dropWhile_eq_Nil_conv)
qed

subsection \<open>The metadata step\<close>

lemma entry_email_id: "dict_get (metadata_entry f clk n) ''email_id'' JNull = Inr (uid f)"
  by (simp add: metadata_entry_def chunk_fields_def)

lemma has_email_id_entry: "has_email_id u (metadata_entry f clk n) = py_eq (uid f) u"
  by (simp add: has_email_id_def entry_email_id)

lemma any_email_id_False:
  "any_email_id ms v = Inr False \<Longrightarrow> py_eq v u \<Longrightarrow> filter (has_email_id u) ms = []"
proof (induction ms)
  case Nil
  then show ?case by simp
next
  case (Cons m ms)
  then show ?case
    by (auto simp add: has_email_id_def split: sum.splits if_splits
             dest: py_eq_trans py_eq_sym)
qed

lemma any_email_id_True:
  "any_email_id ms v = Inr True \<Longrightarrow> py_eq v u \<Longrightarrow> filter (has_email_id u) ms \<noteq> []"
proof (induction ms)
  case Nil
  then show ?case by simp
next
  case (Cons m ms)
  then show ?case
    by (auto simp add: has_email_id_def split: sum.splits if_splits
             dest: py_eq_trans py_eq_sym)
qed

lemma any_email_id_strings: "any_email_id (map (\<lambda>x. JStr (g x)) xs) v \<noteq> Inr True"
  by (cases xs) simp_all

lemma iter_True_is_list:
  assumes "py_iter j = Inr ms" and "any_email_id ms v = Inr True"
  shows "j = JArr ms"
  using assms any_email_id_strings [of "\<lambda>c. [c]" _ v] any_email_id_strings [of fst _ v]
  by (cases j) auto

lemma append_metadata_cases:
  assumes "append_metadata v entry mf = Inr mf'"
  shows "(mf' = mf \<and> any_email_id (records_of mf) v = Inr True) \<or>
         (mf' = Some (Json (JArr (records_of mf @ [entry]))) \<and>
          any_email_id (records_of mf) v = Inr False)"
proof -
  obtain ml where ml: "load_metadata mf = Inr ml"
    using assms by (auto simp add: append_metadata_def split: sum.splits)
  obtain ms where ms: "py_iter ml = Inr ms"
    using assms ml by (auto simp add: append_metadata_def split: sum.splits)
  obtain b where b: "any_email_id ms v = Inr b"
    using assms ml ms by (auto simp add: append_metadata_def split: sum.splits)
  have recs: "records_of mf = xs" if "ml = JArr xs" for xs
    using ml that by (cases mf rule: load_metadata.cases) simp_all
  show ?thesis
  proof (cases b)
    case True
    have "ml = JArr ms"
      using iter_True_is_list [OF ms] b True by simp
    then have "records_of mf = ms"
      by (rule recs)
    moreover have "mf' = mf"
      using assms ml ms b True by (simp add: append_metadata_def)
    ultimately show ?thesis using b True by simp
  next
    case False
    with assms ml ms b obtain new_list where
      n: "list_append ml entry = Inr new_list" and f: "mf' = Some (Json new_list)"
      by (auto simp add: append_metadata_def split: sum.splits)
    from n obtain xs where xs: "ml = JArr xs" and nl: "new_list = JArr (xs @ [entry])"
      by (cases ml) auto
    from xs have r: "records_of mf = xs"
      by (rule recs)
    from xs ms have "ms = xs" by simp
    with r b False f nl show ?thesis by simp
  qed
qed

lemma count_appended:
  "count_email_id u (Some (Json (JArr (records_of mf @ [entry])))) =
     count_email_id u mf + (if has_email_id u entry then 1 else 0)"
  by (simp add: count_email_id_def)

lemma append_count_mono:
  assumes "append_metadata v entry mf = Inr mf'"
  shows "count_email_id u mf \<le> count_email_id u mf'"
  using append_metadata_cases [OF assms] by (auto simp add: count_appended)

lemma append_count_le1:
  assumes "append_metadata (uid f) (metadata_entry f clk n) mf = Inr mf'"
    and "count_email_id u mf \<le> 1"
  shows "count_email_id u mf' \<le> 1"
proof -
  from append_metadata_cases [OF assms(1)] show ?thesis
  proof
    assume "mf' = mf \<and> any_email_id (records_of mf) (uid f) = Inr True"
    with assms(2) show ?thesis by simp
  next
    assume a: "mf' = Some (Json (JArr (records_of mf @ [metadata_entry f clk n]))) \<and>
               any_email_id (records_of mf) (uid f) = Inr False"
    show ?thesis
    proof (cases "py_eq (uid f) u")
      case True
      with a have "filter (has_email_id u) (records_of mf) = []"
        using any_email_id_False by blast
      then have "count_email_id u mf = 0"
        by (simp add: count_email_id_def)
      with a True show ?thesis
        by (simp add: count_appended has_email_id_entry)
    next
      case False
      with a assms(2) show ?thesis
        by (simp add: count_appended has_email_id_entry)
    qed
  qed
qed

lemma append_count_ge1:
  assumes "append_metadata (uid f) (metadata_entry f clk n) mf = Inr mf'"
    and "py_eq (uid f) u"
  shows "1 \<le> count_email_id u mf'"
proof -
  from append_metadata_cases [OF assms(1)] show ?thesis
  proof
    assume a: "mf' = mf \<and> any_email_id (records_of mf) (uid f) = Inr True"
    then have "filter (has_email_id u) (records_of mf) \<noteq> []"
      using any_email_id_True assms(2) by blast
    then have "1 \<le> length (filter (has_email_id u) (records_of mf))"
      by (cases "filter (has_email_id u) (records_of mf)") simp_all
    with a show ?thesis by (simp add: count_email_id_def)
  next
    assume "mf' = Some (Json (JArr (records_of mf @ [metadata_entry f clk n]))) \<and>
            any_email_id (records_of mf) (uid f) = Inr False"
    with assms(2) show ?thesis
      by (simp add: count_appended has_email_id_entry)
  qed
qed

subsection \<open>One ingestion\<close>

lemma process_cases:
  assumes "process_and_store_email env clk email fs = (out, fs')"
  shows "(out \<noteq> Stored \<and> metadata_file fs' = metadata_file fs) \<or>
         (out = Stored \<and>
          (\<exists>f n. read_fields env email = Inr f \<and>
                 append_metadata (uid f) (metadata_entry f clk n) (metadata_file fs)
                   = Inr (metadata_file fs')))"
  using assms
  by (auto simp add: process_and_store_email_def Let_def
           split: sum.splits if_splits prod.splits option.splits)

lemma process_stored:
  assumes "read_fields env email_data = Inr f"
    and "py_strip (plain_text f) \<noteq> []"
    and "chunker env (temp_file_path env (uid f) (timestamp clk)) (plain_text f) = Inr chunks"
    and "enrich_chunks (chunk_fields f (timestamp clk)) chunks = Inr chunks'"
    and "build_or_append_index env chunks' index_path (index_file fs) = (None, idx)"
    and "append_metadata (uid f) (metadata_entry f clk (length chunks')) (metadata_file fs) = Inr mf'"
  shows "process_and_store_email env clk email_data fs =
           (Stored, fs\<lparr>base_dir := True,
                       text_files := (text_files fs)(temp_file_path env (uid f) (timestamp clk) := None),
                       index_file := idx, metadata_file := mf'\<rparr>)"
  using assms by (simp add: process_and_store_email_def Let_def)


lemma process_count_mono:
  "count_email_id u (metadata_file fs)
     \<le> count_email_id u (metadata_file (snd (process_and_store_email env clk email fs)))"
proof -
  obtain out fs' where p: "process_and_store_email env clk email fs = (out, fs')"
    by (cases "process_and_store_email env clk email fs")
  from process_cases [OF p] show ?thesis
    using p append_count_mono by auto
qed

lemma process_count_le1:
  assumes "count_email_id u (metadata_file fs) \<le> 1"
  shows "count_email_id u (metadata_file (snd (process_and_store_email env clk email fs))) \<le> 1"
proof -
  obtain out fs' where p: "process_and_store_email env clk email fs = (out, fs')"
    by (cases "process_and_store_email env clk email fs")
  from process_cases [OF p] show ?thesis
    using p assms append_count_le1 by auto
qed

lemma process_stored_ge1:
  assumes "fst (process_and_store_email env clk email fs) = Stored"
    and "read_fields env email = Inr f"
    and "py_eq (uid f) u"
  shows "1 \<le> count_email_id u (metadata_file (snd (process_and_store_email env clk email fs)))"
proof -
  obtain out fs' where p: "process_and_store_email env clk email fs = (out, fs')"
    by (cases "process_and_store_email env clk email fs")
  from process_cases [OF p] assms(1) p obtain g n where
    "read_fields env email = Inr g"
    "append_metadata (uid g) (metadata_entry g clk n) (metadata_file fs) = Inr (metadata_file fs')"
    by auto
  with assms(2,3) p show ?thesis
    using append_count_ge1 by auto
qed

subsection \<open>Sequences of ingestions\<close>

lemma ingest_all_append:
  "ingest_all env (xs @ ys) fs = ingest_all env ys (ingest_all env xs fs)"
  by (induction xs arbitrary: fs) simp_all

lemma ingest_all_count_mono:
  "count_email_id u (metadata_file fs) \<le> count_email_id u (metadata_file (ingest_all env js fs))"
proof (induction js arbitrary: fs)
  case Nil
  then show ?case by simp
next
  case (Cons j js)
  have "count_email_id u (metadata_file fs)
          \<le> count_email_id u (metadata_file (snd (process_and_store_email env (fst j) (snd j) fs)))"
    by (rule process_count_mono)
  also have "\<dots> \<le> count_email_id u (metadata_file (ingest_all env (j # js) fs))"
    using Cons.IH by simp
  finally show ?case .
qed

lemma ingest_all_count_le1:
  "count_email_id u (metadata_file fs) \<le> 1 \<Longrightarrow>
   count_email_id u (metadata_file (ingest_all env js fs)) \<le> 1"
proof (induction js arbitrary: fs)
  case Nil
  then show ?case by simp
next
  case (Cons j js)
  have "count_email_id u (metadata_file (snd (process_and_store_email env (fst j) (snd j) fs))) \<le> 1"
    using Cons.prems by (rule process_count_le1)
  then show ?case using Cons.IH by simp
qed

subsection \<open>The example collaborators and messages\<close>

lemma read_message_a: "read_fields demo_env message_a = Inr (demo_fields ''A1'' ''hello'')"
  by (simp add: read_fields_def bind_result_def nested_get_def demo_env_def message_a_def
                demo_fields_def)

lemma read_blank_message: "read_fields demo_env blank_message = Inr (demo_fields ''C3'' '' '')"
  by (simp add: read_fields_def bind_result_def nested_get_def demo_env_def blank_message_def
                demo_fields_def)

lemma not_blank_hello: "py_strip ''hello'' \<noteq> []"
  by (simp add: py_strip_def py_isspace_def)

lemma demo_chunker:
  "chunker demo_env p c = Inr [JObj [(''text'', JStr c), (''metadata'', JObj [])]]"
  by (simp add: demo_env_def)

lemma demo_index: "build_or_append_index demo_env cs p idx = (None, idx @ cs)"
  by (simp add: demo_env_def)

lemma demo_enrich:
  "enrich_chunks (chunk_fields f ts) [JObj [(''text'', JStr c), (''metadata'', JObj [])]] =
     Inr [JObj [(''text'', JStr c), (''metadata'', JObj (chunk_fields f ts))]]"
  by (simp add: chunk_fields_def)

lemma stored_a: "fst (process_and_store_email demo_env demo_clock message_a empty_storage) = Stored"
proof -
  have b: "py_strip (plain_text (demo_fields ''A1'' ''hello'')) \<noteq> []"
    by (simp add: demo_fields_def not_blank_hello)
  have m: "append_metadata (uid (demo_fields ''A1'' ''hello''))
             (metadata_entry (demo_fields ''A1'' ''hello'') demo_clock (length [x]))
             (metadata_file empty_storage)
           = Inr (Some (Json (JArr [metadata_entry (demo_fields ''A1'' ''hello'') demo_clock (length [x])])))" for x :: json
    by (simp add: append_metadata_def empty_storage_def)
  show ?thesis
    using process_stored [OF read_message_a b demo_chunker demo_enrich demo_index m]
    by simp
qed

subsection \<open>The claims\<close>

text \<open>
  C1: idempotent de-duplication. Take a metadata file with at most one record of a
  message id (an absent, unreadable or empty file has none), and any sequence of
  ingestions in which a message of that id is ingested twice, with any ingestions before,
  between and after, of any messages, whether they succeed, are skipped or raise. If at
  least one of the two ingestions runs to its end, the metadata file holds exactly one
  record with that \<open>email_id\<close> afterwards. Records are compared with the id as the code
  compares them (\<open>m.get("email_id") == uid\<close>).
\<close>

theorem ingest_twice_single_record:
  assumes "count_email_id (uid f1) (metadata_file fs) \<le> 1"
    and "read_fields env (snd job1) = Inr f1"
    and "read_fields env (snd job2) = Inr f2"
    and "uid f2 = uid f1"
    and "fst (process_and_store_email env (fst job1) (snd job1) (ingest_all env before fs)) = Stored \<or>
         fst (process_and_store_email env (fst job2) (snd job2)
                (ingest_all env (before @ [job1] @ between) fs)) = Stored"
  shows "count_email_id (uid f1)
           (metadata_file (ingest_all env (before @ [job1] @ between @ [job2] @ after) fs)) = 1"
proof -
  let ?u = "uid f1"
  let ?n = "\<lambda>s. count_email_id ?u (metadata_file s)"
  let ?s1 = "ingest_all env before fs"
  let ?s2 = "snd (process_and_store_email env (fst job1) (snd job1) ?s1)"
  let ?s3 = "ingest_all env between ?s2"
  let ?s4 = "snd (process_and_store_email env (fst job2) (snd job2) ?s3)"
  let ?s5 = "ingest_all env after ?s4"
  have fin: "ingest_all env (before @ [job1] @ between @ [job2] @ after) fs = ?s5"
    by (simp add: ingest_all_append)
  have mid: "ingest_all env (before @ [job1] @ between) fs = ?s3"
    by (simp add: ingest_all_append)
  have "?n ?s5 \<le> 1"
    unfolding fin [symmetric] using assms(1) by (rule ingest_all_count_le1)
  moreover have "1 \<le> ?n ?s5"
    using assms(5)
  proof
    assume "fst (process_and_store_email env (fst job1) (snd job1) ?s1) = Stored"
    then have "1 \<le> ?n ?s2"
      using assms(2) py_eq_refl by (rule process_stored_ge1)
    also have "\<dots> \<le> ?n ?s3" by (rule ingest_all_count_mono)
    also have "\<dots> \<le> ?n ?s4" by (rule process_count_mono)
    also have "\<dots> \<le> ?n ?s5" by (rule ingest_all_count_mono)
    finally show ?thesis .
  next
    assume "fst (process_and_store_email env (fst job2) (snd job2)
                   (ingest_all env (before @ [job1] @ between) fs)) = Stored"
    then have "fst (process_and_store_email env (fst job2) (snd job2) ?s3) = Stored"
      unfolding mid .
    moreover have "py_eq (uid f2) ?u"
      using assms(4) by (simp add: py_eq_refl)
    ultimately have "1 \<le> ?n ?s4"
      using assms(3) process_stored_ge1 by blast
    also have "\<dots> \<le> ?n ?s5" by (rule ingest_all_count_mono)
    finally show ?thesis .
  qed
  ultimately show ?thesis unfolding fin by simp
qed

theorem ingest_twice_single_record_witness:
  "count_email_id (JStr ''A1'') (metadata_file empty_storage) \<le> 1 \<and>
   fst (process_and_store_email demo_env demo_clock message_a empty_storage) = Stored \<and>
   count_email_id (JStr ''A1'')
     (metadata_file
        (ingest_all demo_env
           [(demo_clock, message_a), (demo_clock, message_b), (demo_clock, message_a)]
           empty_storage)) = 1"
proof -
  let ?f = "demo_fields ''A1'' ''hello''"
  have u: "uid ?f = JStr ''A1''"
    by (simp add: demo_fields_def)
  have h1: "count_email_id (uid ?f) (metadata_file empty_storage) \<le> 1"
    by (simp add: count_email_id_def empty_storage_def)
  have h2: "read_fields demo_env (snd (demo_clock, message_a)) = Inr ?f"
    by (simp add: read_message_a)
  have h4: "uid ?f = uid ?f" by simp
  have h5: "fst (process_and_store_email demo_env (fst (demo_clock, message_a))
                   (snd (demo_clock, message_a)) (ingest_all demo_env [] empty_storage)) = Stored \<or>
            fst (process_and_store_email demo_env (fst (demo_clock, message_a))
                   (snd (demo_clock, message_a))
                   (ingest_all demo_env ([] @ [(demo_clock, message_a)] @ [(demo_clock, message_b)])
                      empty_storage)) = Stored"
    using stored_a by simp
  show ?thesis
    using h1 stored_a u
      ingest_twice_single_record [OF h1 h2 h2 h4 h5, of "[]"]
    by simp
qed

text \<open>
  C3: the empty-body skip. When the fields of the message are read and its plain text is
  empty or whitespace only, \<open>process_and_store_email\<close> returns at the check and the
  storage is what it was: the directory is not created, no text file is written, the
  index file and the metadata file are unchanged. (A message whose fields cannot be read
  raises before the check, and the storage is what it was as well.)
\<close>

theorem empty_body_skip:
  "(read_fields env email_data = Inr f \<and> list_all py_isspace (plain_text f) \<longrightarrow>
      process_and_store_email env clk email_data fs = (Skipped, fs)) \<and>
   (read_fields env email_data = Inl e \<longrightarrow>
      process_and_store_email env clk email_data fs = (Raised e, fs))"
  by (simp add: process_and_store_email_def py_strip_empty_iff)

theorem empty_body_skip_witness:
  "read_fields demo_env blank_message = Inr (demo_fields ''C3'' '' '') \<and>
   list_all py_isspace (plain_text (demo_fields ''C3'' '' '')) \<and>
   process_and_store_email demo_env demo_clock blank_message empty_storage = (Skipped, empty_storage)"
proof -
  have w: "list_all py_isspace (plain_text (demo_fields ''C3'' '' ''))"
    by (simp add: demo_fields_def py_isspace_def)
  from read_blank_message w
    empty_body_skip [of demo_env blank_message "demo_fields ''C3'' '' ''" demo_clock empty_storage]
  show ?thesis by blast
qed




text \<open>
  C9: an ingestion, however it ends, leaves the metadata file as it was or rewrites it as
  the list of the records it held followed by one new record. The records read before
  are a prefix of the records read after, with at most one record added.
\<close>

theorem existing_records_preserved:
  "(metadata_file (snd (process_and_store_email env clk email_data fs)) = metadata_file fs \<or>
    (\<exists>entry. metadata_file (snd (process_and_store_email env clk email_data fs)) =
        Some (Json (JArr (records_of (metadata_file fs) @ [entry]))))) \<and>
   (\<exists>added. records_of (metadata_file (snd (process_and_store_email env clk email_data fs))) =
        records_of (metadata_file fs) @ added \<and> length added \<le> 1)"
proof -
  obtain out fs' where p: "process_and_store_email env clk email_data fs = (out, fs')"
    by (cases "process_and_store_email env clk email_data fs")
  have "metadata_file fs' = metadata_file fs \<or>
        (\<exists>entry. metadata_file fs' = Some (Json (JArr (records_of (metadata_file fs) @ [entry]))))"
    using process_cases [OF p] append_metadata_cases by blast
  then show ?thesis
  proof
    assume "metadata_file fs' = metadata_file fs"
    then show ?thesis using p by simp
  next
    assume "\<exists>entry. metadata_file fs' = Some (Json (JArr (records_of (metadata_file fs) @ [entry])))"
    then obtain entry where
      e: "metadata_file fs' = Some (Json (JArr (records_of (metadata_file fs) @ [entry])))"
      by blast
    have "records_of (metadata_file fs') = records_of (metadata_file fs) @ [entry] \<and>
          length [entry] \<le> 1"
      using e by simp
    then show ?thesis using p e by auto
  qed
qed

section \<open>Properties of the subscription and its scheduler\<close>

lemma token_frame:
  "use_fast_scheduler (snd (get_access_token t s)) = use_fast_scheduler s \<and>
   jobs (snd (get_access_token t s)) = jobs s \<and>
   current_subscription_id (snd (get_access_token t s)) = current_subscription_id s"
  by (simp add: get_access_token_def log_call_def)

lemma delete_each_frame:
  "use_fast_scheduler (snd (delete_each del token subs s)) = use_fast_scheduler s \<and>
   jobs (snd (delete_each del token subs s)) = jobs s \<and>
   current_subscription_id (snd (delete_each del token subs s)) = current_subscription_id s"
  by (induction subs arbitrary: s) (auto simp add: log_call_def Let_def split: sum.splits)

lemma delete_all_frame:
  "use_fast_scheduler (snd (delete_all_subscriptions a token s)) = use_fast_scheduler s \<and>
   jobs (snd (delete_all_subscriptions a token s)) = jobs s \<and>
   current_subscription_id (snd (delete_all_subscriptions a token s)) = current_subscription_id s"
  by (auto simp add: delete_all_subscriptions_def delete_each_frame log_call_def Let_def
           split: sum.splits)

lemma create_frame:
  "use_fast_scheduler (snd (create_subscription cfg a token s)) = use_fast_scheduler s \<and>
   jobs (snd (create_subscription cfg a token s)) = jobs s"
  by (auto simp add: create_subscription_def log_call_def Let_def split: sum.splits)

lemma renew_frame:
  "use_fast_scheduler (snd (renew_subscription cfg a s)) = use_fast_scheduler s \<and>
   jobs (snd (renew_subscription cfg a s)) = jobs s \<and>
   current_subscription_id (snd (renew_subscription cfg a s)) = current_subscription_id s"
  by (auto simp add: renew_subscription_def get_access_token_def log_call_def Let_def
           split: sum.splits)

lemma renew_True:
  assumes "renew_subscription cfg a s = (Inr True, s')"
  shows "truthy (current_subscription_id s) \<and>
         (\<exists>tok. renew_token a = Inr tok \<and> truthy tok \<and>
            s' = log_call (PatchSubscription tok (current_subscription_id s)
                             (patch_body cfg (renew_now a))) (log_call AcquireToken s))"
  using assms
  by (auto simp add: renew_subscription_def get_access_token_def log_call_def Let_def
           split: if_splits sum.splits)

lemma slow_tick:
  assumes "\<not> use_fast_scheduler s"
  shows "\<not> use_fast_scheduler (snd (run_scheduled_check cfg a s)) \<and>
         jobs (snd (run_scheduled_check cfg a s)) = jobs s"
proof (cases "truthy (current_subscription_id s)")
  case True
  obtain r s1 where r: "renew_subscription cfg a s = (r, s1)"
    by (cases "renew_subscription cfg a s")
  have "use_fast_scheduler s1 = use_fast_scheduler s \<and> jobs s1 = jobs s"
    using renew_frame [of cfg a s] r by simp
  with assms True r show ?thesis
    by (auto simp add: run_scheduled_check_def split: sum.splits)
next
  case False
  obtain t s1 where t: "get_access_token (recovery_token a) s = (t, s1)"
    by (cases "get_access_token (recovery_token a) s")
  have f1: "use_fast_scheduler s1 = use_fast_scheduler s \<and> jobs s1 = jobs s"
    using token_frame [of "recovery_token a" s] t by simp
  show ?thesis
  proof (cases t)
    case (Inl e)
    with False t f1 assms show ?thesis
      by (simp add: run_scheduled_check_def)
  next
    case (Inr token)
    obtain d s2 where d: "delete_all_subscriptions a token s1 = (d, s2)"
      by (cases "delete_all_subscriptions a token s1")
    have f2: "use_fast_scheduler s2 = use_fast_scheduler s1 \<and> jobs s2 = jobs s1"
      using delete_all_frame [of a token s1] d by simp
    obtain c s3 where c: "create_subscription cfg a token s2 = (c, s3)"
      by (cases "create_subscription cfg a token s2")
    have f3: "use_fast_scheduler s3 = use_fast_scheduler s2 \<and> jobs s3 = jobs s2"
      using create_frame [of cfg a token s2] c by simp
    obtain r s4 where r: "renew_subscription cfg a s3 = (r, s4)"
      by (cases "renew_subscription cfg a s3")
    have f4: "use_fast_scheduler s4 = use_fast_scheduler s3 \<and> jobs s4 = jobs s3"
      using renew_frame [of cfg a s3] r by simp
    from False t Inr d c r f1 f2 f3 f4 assms show ?thesis
      by (auto simp add: run_scheduled_check_def split: sum.splits)
  qed
qed

lemma slow_forever:
  assumes "\<not> use_fast_scheduler s"
  shows "\<not> use_fast_scheduler (run_ticks cfg later s) \<and> jobs (run_ticks cfg later s) = jobs s"
  using assms
proof (induction later arbitrary: s)
  case Nil
  then show ?case by simp
next
  case (Cons a later)
  have st: "\<not> use_fast_scheduler (snd (run_scheduled_check cfg a s)) \<and>
        jobs (snd (run_scheduled_check cfg a s)) = jobs s"
    using Cons.prems by (rule slow_tick)
  then have "\<not> use_fast_scheduler (run_ticks cfg later (snd (run_scheduled_check cfg a s))) \<and>
        jobs (run_ticks cfg later (snd (run_scheduled_check cfg a s))) =
          jobs (snd (run_scheduled_check cfg a s))"
    using Cons.IH by blast
  with st show ?case by simp
qed

text \<open>
  C4: the guard of \<open>renew_subscription\<close>. With no subscription id cached (the global is
  \<open>None\<close>, or any falsy value) the function returns false and the state, the log of
  network calls included, is unchanged: no token was acquired and no PATCH was sent.
\<close>

theorem renew_without_id:
  assumes "\<not> truthy (current_subscription_id s)"
  shows "renew_subscription cfg a s = (Inr False, s) \<and>
         calls (snd (renew_subscription cfg a s)) = calls s"
  using assms by (simp add: renew_subscription_def)

theorem renew_without_id_witness:
  "current_subscription_id start_scheduler = JNull \<and>
   renew_subscription demo_config ok_answers start_scheduler = (Inr False, start_scheduler) \<and>
   calls (snd (renew_subscription demo_config ok_answers start_scheduler)) = []"
proof -
  have n: "\<not> truthy (current_subscription_id start_scheduler)"
    by (simp add: start_scheduler_def)
  show ?thesis
    using renew_without_id [OF n, of demo_config ok_answers]
    by (simp add: start_scheduler_def)
qed

text \<open>
  C7, as the claim states it, fails: on a response with a status other than 201
  \<open>create_subscription\<close> does not raise; it returns \<open>False\<close>.
\<close>

theorem create_rejected_counterexample:
  "creation rejected_answers = Inr \<lparr>status = 400, response_json = Inr (JObj [])\<rparr> \<and>
   fst (create_subscription demo_config rejected_answers (JStr ''tok'') start_scheduler) = Inr False"
  by (simp add: rejected_answers_def ok_answers_def create_subscription_def)

text \<open>
  C7, amended: on every response with a status other than 201 \<open>create_subscription\<close>
  completes normally, returns false and leaves the cached subscription id as it was; on a
  201 response whose body is a JSON object it caches the returned id and returns true. In
  both cases the one request it sent asks for an expiration 40 hours after the clock
  reading.
\<close>

theorem create_subscription_result:
  "(creation a = Inr r \<and> status r \<noteq> 201 \<longrightarrow>
      create_subscription cfg a token s =
        (Inr False, log_call (PostSubscription token (create_body cfg (create_now a))) s)) \<and>
   (creation a = Inr r \<and> status r = 201 \<and> response_json r = Inr body \<and>
    dict_get body ''id'' JNull = Inr new_id \<longrightarrow>
      create_subscription cfg a token s =
        (Inr True, (log_call (PostSubscription token (create_body cfg (create_now a))) s)
                     \<lparr>current_subscription_id := new_id\<rparr>)) \<and>
   dict_get (create_body cfg (create_now a)) ''expirationDateTime'' JNull =
     Inr (JStr (isoformat cfg (create_now a + hours 40) @ ''Z'')) \<and>
   hours 40 = 40 * 60 * 60 * 1000000"
  by (simp add: create_subscription_def create_body_def expiration_def hours_def)

theorem create_subscription_result_witness:
  "create_subscription demo_config rejected_answers (JStr ''tok'') start_scheduler =
     (Inr False,
      log_call (PostSubscription (JStr ''tok'') (create_body demo_config 0)) start_scheduler) \<and>
   create_subscription demo_config ok_answers (JStr ''tok'') start_scheduler =
     (Inr True,
      (log_call (PostSubscription (JStr ''tok'') (create_body demo_config 0)) start_scheduler)
        \<lparr>current_subscription_id := JStr ''sub-1''\<rparr>) \<and>
   dict_get (create_body demo_config 0) ''expirationDateTime'' JNull =
     Inr (JStr (isoformat demo_config (0 + hours 40) @ ''Z''))"
proof -
  let ?bad = "\<lparr>status = 400, response_json = Inr (JObj [])\<rparr>"
  let ?good = "\<lparr>status = 201, response_json = Inr (JObj [(''id'', JStr ''sub-1'')])\<rparr>"
  have a: "creation rejected_answers = Inr ?bad \<and> status ?bad \<noteq> 201"
    by (simp add: rejected_answers_def ok_answers_def)
  have b: "creation ok_answers = Inr ?good \<and> status ?good = 201 \<and>
           response_json ?good = Inr (JObj [(''id'', JStr ''sub-1'')]) \<and>
           dict_get (JObj [(''id'', JStr ''sub-1'')]) ''id'' JNull = Inr (JStr ''sub-1'')"
    by (simp add: ok_answers_def)
  have c1: "create_now rejected_answers = 0"
    by (simp add: rejected_answers_def ok_answers_def)
  have c2: "create_now ok_answers = 0"
    by (simp add: ok_answers_def)
  have p1: "create_subscription demo_config rejected_answers (JStr ''tok'') start_scheduler =
     (Inr False,
      log_call (PostSubscription (JStr ''tok'')
        (create_body demo_config (create_now rejected_answers))) start_scheduler)"
    using a create_subscription_result [of rejected_answers ?bad demo_config "JStr ''tok''"
              start_scheduler]
    by blast
  have p2: "create_subscription demo_config ok_answers (JStr ''tok'') start_scheduler =
     (Inr True,
      (log_call (PostSubscription (JStr ''tok'')
        (create_body demo_config (create_now ok_answers))) start_scheduler)
        \<lparr>current_subscription_id := JStr ''sub-1''\<rparr>)"
    using b create_subscription_result [of ok_answers ?good demo_config "JStr ''tok''"
              start_scheduler "JObj [(''id'', JStr ''sub-1'')]" "JStr ''sub-1''"]
    by blast
  have p3: "dict_get (create_body demo_config (create_now ok_answers)) ''expirationDateTime'' JNull =
     Inr (JStr (isoformat demo_config (create_now ok_answers + hours 40) @ ''Z''))"
    using create_subscription_result [of ok_answers ?good demo_config "JStr ''tok''"
              start_scheduler "JObj [(''id'', JStr ''sub-1'')]" "JStr ''sub-1''"]
    by blast
  from p1 p2 p3 show ?thesis
    unfolding c1 c2 by blast
qed

text \<open>
  C2: the scheduler's transition. The fast cadence is 15 seconds and the slow cadence is
  40 hours (144000 seconds). Start from \<open>start_scheduler\<close> (no cached id, fast
  flag set, job at 15 seconds) and take a first tick in which the token is acquired, the
  stale subscriptions are cleared, \<open>create_subscription\<close> returns true and the renewal
  that follows it returns true. That tick ends normally and leaves the job at the fast
  cadence. The next tick, when its renewal succeeds, does nothing but renew (one token
  acquisition and one PATCH of the cached id), clears the fast flag and installs the job
  at 40 hours. From then on, whatever the world answers in any later ticks, the flag
  stays cleared and the job stays at 40 hours.
\<close>

theorem scheduler_transition:
  assumes "get_access_token (recovery_token a1) start_scheduler = (Inr token, s1)"
    and "truthy token"
    and "delete_all_subscriptions a1 token s1 = (Inr (), s2)"
    and "create_subscription cfg a1 token s2 = (Inr True, s3)"
    and "renew_subscription cfg a1 s3 = (Inr True, s4)"
    and "renew_subscription cfg a2 s4 = (Inr True, s5)"
  shows "fast_interval = 15 \<and> slow_interval = 40 * 3600 \<and> fast_interval < slow_interval \<and>
         run_scheduled_check cfg a1 start_scheduler = (None, s4) \<and>
         use_fast_scheduler s4 \<and> jobs s4 job_id = Some fast_interval \<and>
         (\<exists>tok. calls (snd (run_scheduled_check cfg a2 s4)) =
                  calls s4 @ [AcquireToken,
                              PatchSubscription tok (current_subscription_id s4)
                                (patch_body cfg (renew_now a2))]) \<and>
         fst (run_scheduled_check cfg a2 s4) = None \<and>
         \<not> use_fast_scheduler (snd (run_scheduled_check cfg a2 s4)) \<and>
         jobs (snd (run_scheduled_check cfg a2 s4)) job_id = Some slow_interval \<and>
         (\<forall>later.
            \<not> use_fast_scheduler (run_ticks cfg later (snd (run_scheduled_check cfg a2 s4))) \<and>
            jobs (run_ticks cfg later (snd (run_scheduled_check cfg a2 s4))) job_id
              = Some slow_interval)"
proof -
  have start: "\<not> truthy (current_subscription_id start_scheduler)"
    by (simp add: start_scheduler_def)
  have tick1: "run_scheduled_check cfg a1 start_scheduler = (None, s4)"
    using start assms(1-5) by (simp add: run_scheduled_check_def)
  have k1: "use_fast_scheduler s1 = use_fast_scheduler start_scheduler \<and>
            jobs s1 = jobs start_scheduler"
    using token_frame [of "recovery_token a1" start_scheduler] assms(1) by simp
  have k2: "use_fast_scheduler s2 = use_fast_scheduler s1 \<and> jobs s2 = jobs s1"
    using delete_all_frame [of a1 token s1] assms(3) by simp
  have k3: "use_fast_scheduler s3 = use_fast_scheduler s2 \<and> jobs s3 = jobs s2"
    using create_frame [of cfg a1 token s2] assms(4) by simp
  have k4: "use_fast_scheduler s4 = use_fast_scheduler s3 \<and> jobs s4 = jobs s3"
    using renew_frame [of cfg a1 s3] assms(5) by simp
  have fast: "use_fast_scheduler s4 \<and> jobs s4 job_id = Some fast_interval"
    using k1 k2 k3 k4 by (simp add: start_scheduler_def)
  have id3: "truthy (current_subscription_id s3)"
    using renew_True [OF assms(5)] by simp
  have id4: "truthy (current_subscription_id s4)"
    using id3 renew_frame [of cfg a1 s3] assms(5) by simp
  from renew_True [OF assms(6)] obtain tok where
    s5: "s5 = log_call (PatchSubscription tok (current_subscription_id s4)
                          (patch_body cfg (renew_now a2))) (log_call AcquireToken s4)"
    by blast
  have k5: "use_fast_scheduler s5 \<and> jobs s5 job_id = Some fast_interval"
    using fast s5 by (simp add: log_call_def)
  have tick2: "run_scheduled_check cfg a2 s4 =
                 (None, s5\<lparr>use_fast_scheduler := False,
                          jobs := ((jobs s5)(job_id := None))(job_id \<mapsto> slow_interval)\<rparr>)"
    using id4 assms(6) k5 by (simp add: run_scheduled_check_def switch_to_slow_def Let_def)
  have calls2: "calls (snd (run_scheduled_check cfg a2 s4)) =
                  calls s4 @ [AcquireToken,
                              PatchSubscription tok (current_subscription_id s4)
                                (patch_body cfg (renew_now a2))]"
    unfolding tick2 by (simp add: s5 log_call_def)
  have slow: "\<not> use_fast_scheduler (snd (run_scheduled_check cfg a2 s4)) \<and>
              jobs (snd (run_scheduled_check cfg a2 s4)) job_id = Some slow_interval"
    unfolding tick2 by simp
  have forever: "\<not> use_fast_scheduler (run_ticks cfg later (snd (run_scheduled_check cfg a2 s4))) \<and>
            jobs (run_ticks cfg later (snd (run_scheduled_check cfg a2 s4))) job_id
              = Some slow_interval" for later
    using slow_forever [of "snd (run_scheduled_check cfg a2 s4)" cfg later] slow by simp
  have none2: "fst (run_scheduled_check cfg a2 s4) = None"
    unfolding tick2 by simp
  have cadences: "fast_interval = 15 \<and> slow_interval = 40 * 3600 \<and> fast_interval < slow_interval"
    by (simp add: fast_interval_def slow_interval_def)
  from cadences tick1 fast calls2 none2 slow forever show ?thesis by blast
qed

theorem scheduler_transition_witness:
  "fst (run_scheduled_check demo_config ok_answers start_scheduler) = None \<and>
   use_fast_scheduler after_recovery \<and> jobs after_recovery job_id = Some fast_interval \<and>
   current_subscription_id after_recovery = JStr ''sub-1'' \<and>
   \<not> use_fast_scheduler after_renewal \<and> jobs after_renewal job_id = Some slow_interval \<and>
   \<not> use_fast_scheduler (run_ticks demo_config [rejected_answers, ok_answers] after_renewal) \<and>
   jobs (run_ticks demo_config [rejected_answers, ok_answers] after_renewal) job_id
     = Some slow_interval \<and>
   jobs after_recovery job_id = Some 15 \<and> jobs after_renewal job_id = Some 144000"
proof -
  let ?tok = "JStr ''tok''"
  let ?s1 = "log_call AcquireToken start_scheduler"
  let ?s2 = "log_call (ListSubscriptions ?tok) ?s1"
  let ?s3 = "(log_call (PostSubscription ?tok (create_body demo_config 0)) ?s2)
               \<lparr>current_subscription_id := JStr ''sub-1''\<rparr>"
  let ?s4 = "log_call (PatchSubscription ?tok (JStr ''sub-1'') (patch_body demo_config 0))
               (log_call AcquireToken ?s3)"
  let ?s5 = "log_call (PatchSubscription ?tok (JStr ''sub-1'') (patch_body demo_config 0))
               (log_call AcquireToken ?s4)"
  have h1: "get_access_token (recovery_token ok_answers) start_scheduler = (Inr ?tok, ?s1)"
    by (simp add: get_access_token_def ok_answers_def)
  have h2: "truthy ?tok" by simp
  have h3: "delete_all_subscriptions ok_answers ?tok ?s1 = (Inr (), ?s2)"
    by (simp add: delete_all_subscriptions_def ok_answers_def)
  have h4: "create_subscription demo_config ok_answers ?tok ?s2 = (Inr True, ?s3)"
    by (simp add: create_subscription_def ok_answers_def)
  have i3: "current_subscription_id ?s3 = JStr ''sub-1''"
    by simp
  have h5: "renew_subscription demo_config ok_answers ?s3 = (Inr True, ?s4)"
    by (simp add: renew_subscription_def get_access_token_def ok_answers_def log_call_def)
  have i4: "current_subscription_id ?s4 = JStr ''sub-1''"
    by (simp add: log_call_def)
  have h6: "renew_subscription demo_config ok_answers ?s4 = (Inr True, ?s5)"
    by (simp add: renew_subscription_def get_access_token_def ok_answers_def log_call_def)
  note T0 = scheduler_transition [OF h1 h2 h3 h4 h5 h6]
  note T = T0 [THEN conjunct2, THEN conjunct2, THEN conjunct2]
  note t1 = T [THEN conjunct1]
  note t2 = T [THEN conjunct2, THEN conjunct1]
  note t3 = T [THEN conjunct2, THEN conjunct2, THEN conjunct1]
  note t6 = T [THEN conjunct2, THEN conjunct2, THEN conjunct2, THEN conjunct2, THEN conjunct2,
               THEN conjunct1]
  note t7 = T [THEN conjunct2, THEN conjunct2, THEN conjunct2, THEN conjunct2, THEN conjunct2,
               THEN conjunct2, THEN conjunct1]
  note t8 = T [THEN conjunct2, THEN conjunct2, THEN conjunct2, THEN conjunct2, THEN conjunct2,
               THEN conjunct2, THEN conjunct2, THEN spec, of "[rejected_answers, ok_answers]"]
  have r: "after_recovery = ?s4"
    unfolding after_recovery_def t1 by (rule snd_conv)
  have a: "after_renewal = snd (run_scheduled_check demo_config ok_answers ?s4)"
    unfolding after_renewal_def r ..
  have g1: "fst (run_scheduled_check demo_config ok_answers start_scheduler) = None"
    unfolding t1 by (rule fst_conv)
  have g2: "use_fast_scheduler after_recovery"
    unfolding r by (rule t2)
  have g3: "jobs after_recovery job_id = Some fast_interval"
    unfolding r by (rule t3)
  have g4: "current_subscription_id after_recovery = JStr ''sub-1''"
    unfolding r by (rule i4)
  have g5: "\<not> use_fast_scheduler after_renewal"
    unfolding a by (rule t6)
  have g6: "jobs after_renewal job_id = Some slow_interval"
    unfolding a by (rule t7)
  have g7: "\<not> use_fast_scheduler (run_ticks demo_config [rejected_answers, ok_answers] after_renewal)"
    unfolding a by (rule t8 [THEN conjunct1])
  have g8: "jobs (run_ticks demo_config [rejected_answers, ok_answers] after_renewal) job_id
              = Some slow_interval"
    unfolding a by (rule t8 [THEN conjunct2])
  have g9: "jobs after_recovery job_id = Some 15"
    using g3 T0 [THEN conjunct1] by simp
  have g10: "jobs after_renewal job_id = Some 144000"
    using g6 T0 [THEN conjunct2, THEN conjunct1] by simp
  from g1 g2 g3 g4 g5 g6 g7 g8 g9 g10 show ?thesis
    by (intro conjI)
qed

end
